theory Spec2Isabelle
  imports Main
begin

section \<open>Go types as the reflect package sees them\<close>

text \<open>
  \<^verbatim>\<open>ConvertTo\<close> (src/main.go) inspects its two type parameters through the
  \<^verbatim>\<open>reflect\<close> package and then reads the source memory as the target type.
  The embedding has three layers: the type descriptors and the \<^verbatim>\<open>reflect.Type\<close>
  methods the function calls, the function itself with every panic as a value, and a
  store of objects for the read on line 103.
\<close>

text \<open>\<^verbatim>\<open>reflect.Kind\<close>, all 27 constants in the order of the package. \<open>Int_kind\<close> is
  \<^verbatim>\<open>reflect.Int\<close>, whose own name is taken in HOL.\<close>

datatype Kind =
    Invalid | Bool | Int_kind | Int8 | Int16 | Int32 | Int64
  | Uint | Uint8 | Uint16 | Uint32 | Uint64 | Uintptr
  | Float32 | Float64 | Complex64 | Complex128
  | Array | Chan | Func | Interface | Map | Pointer | Slice | String | Struct
  | UnsafePointer

text \<open>
  The predeclared non-composite types. \<open>T_unsafe_Pointer\<close> is
  \<^verbatim>\<open>unsafe.Pointer\<close>.
\<close>

datatype predeclared =
    T_bool | T_int | T_int8 | T_int16 | T_int32 | T_int64
  | T_uint | T_uint8 | T_uint16 | T_uint32 | T_uint64 | T_uintptr
  | T_float32 | T_float64 | T_complex64 | T_complex128 | T_string
  | T_unsafe_Pointer

text \<open>
  A Go type is a predeclared type, a defined (named) type given by its qualified name,
  or a type literal. A struct literal carries the package it is written in (Go compares
  it for unexported field names) and its fields in declaration order; a field has a
  name, a type and the embedded flag. Struct tags are left out: the one place where
  types are compared, \<^verbatim>\<open>ConvertibleTo\<close>, ignores them at every depth. With
  names qualified, two Go types are identical up to tags exactly when their terms are
  equal.
\<close>

datatype gotype =
    Predeclared predeclared
  | Defined string
  | PointerTo gotype
  | StructOf string "StructField list"
  | ArrayOf nat gotype
  | SliceOf gotype
  | MapOf gotype gotype
  | ChanOf nat gotype
  | FuncOf "gotype list" "gotype list" bool
  | InterfaceOf "(string \<times> gotype) list"
and StructField =
    StructField (Name: string) (Type: gotype) (Anonymous: bool)

text \<open>
  The type declarations of the program: the underlying type of each defined type. A
  defined type may mention itself below a pointer (\<^verbatim>\<open>type N struct { next *N }\<close>),
  which is why \<open>Defined\<close> holds a name and not the declaration.
\<close>

type_synonym tenv = "string \<rightharpoonup> gotype"

definition underlying :: "tenv \<Rightarrow> gotype \<Rightarrow> gotype" where
  "underlying env t =
     (case t of
        Defined n \<Rightarrow> (case env n of Some u \<Rightarrow> u | None \<Rightarrow> t)
      | _ \<Rightarrow> t)"

fun kindOfPredeclared :: "predeclared \<Rightarrow> Kind" where
  "kindOfPredeclared T_bool = Bool"
| "kindOfPredeclared T_int = Int_kind"
| "kindOfPredeclared T_int8 = Int8"
| "kindOfPredeclared T_int16 = Int16"
| "kindOfPredeclared T_int32 = Int32"
| "kindOfPredeclared T_int64 = Int64"
| "kindOfPredeclared T_uint = Uint"
| "kindOfPredeclared T_uint8 = Uint8"
| "kindOfPredeclared T_uint16 = Uint16"
| "kindOfPredeclared T_uint32 = Uint32"
| "kindOfPredeclared T_uint64 = Uint64"
| "kindOfPredeclared T_uintptr = Uintptr"
| "kindOfPredeclared T_float32 = Float32"
| "kindOfPredeclared T_float64 = Float64"
| "kindOfPredeclared T_complex64 = Complex64"
| "kindOfPredeclared T_complex128 = Complex128"
| "kindOfPredeclared T_string = String"
| "kindOfPredeclared T_unsafe_Pointer = UnsafePointer"

text \<open>
  The kind of a type literal. A name that the declarations do not resolve to a literal
  has no kind; \<open>Invalid\<close> is what \<^verbatim>\<open>reflect\<close> keeps for that.
\<close>

fun kindOfLiteral :: "gotype \<Rightarrow> Kind" where
  "kindOfLiteral (Predeclared p) = kindOfPredeclared p"
| "kindOfLiteral (Defined n) = Invalid"
| "kindOfLiteral (PointerTo t) = Pointer"
| "kindOfLiteral (StructOf pkg fs) = Struct"
| "kindOfLiteral (ArrayOf n t) = Array"
| "kindOfLiteral (SliceOf t) = Slice"
| "kindOfLiteral (MapOf k v) = Map"
| "kindOfLiteral (ChanOf d t) = Chan"
| "kindOfLiteral (FuncOf ins outs variadic) = Func"
| "kindOfLiteral (InterfaceOf ms) = Interface"

subsection \<open>Panics\<close>

text \<open>
  Every way the call can abort. The first six are the \<^verbatim>\<open>panic\<close> statements of
  \<^verbatim>\<open>ConvertTo\<close>, named as the specification names them; \<open>message\<close> gives the
  string each one carries in the source. The two raised inside the loop also record
  the value of the loop counter at the moment of the panic, which the string does not
  contain. \<open>ReflectPanic\<close> is a panic raised by a \<^verbatim>\<open>reflect\<close> method and
  \<open>RuntimeError\<close> one raised by the Go runtime.
\<close>

datatype panic =
    InvalidSourceShape
  | InvalidTargetShape
  | RedundantConversion
  | TargetTooLarge
  | FieldKindMismatch nat
  | UnsupportedFieldKind nat
  | ReflectPanic string
  | RuntimeError string

fun message :: "panic \<Rightarrow> string" where
  "message InvalidSourceShape = ''T1 must be a pointer to struct''"
| "message InvalidTargetShape = ''T2 must be a struct''"
| "message RedundantConversion = ''T1 must not be a type definition of T2 or vice versa''"
| "message TargetTooLarge = ''T2 must be no larger than T1''"
| "message (FieldKindMismatch i) = ''T2 and T1 must have the same field type''"
| "message (UnsupportedFieldKind i) = ''T2 or T1 must be a valid type''"
| "message (ReflectPanic m) = m"
| "message (RuntimeError m) = m"

definition nilDereference :: panic where
  "nilDereference = RuntimeError ''invalid memory address or nil pointer dereference''"

text \<open>Sequencing of steps that may panic: the first panic ends the call.\<close>

fun andThen :: "panic + 'a \<Rightarrow> ('a \<Rightarrow> panic + 'b) \<Rightarrow> panic + 'b" where
  "andThen (Inl p) f = Inl p"
| "andThen (Inr x) f = f x"

subsection \<open>The methods of \<^verbatim>\<open>reflect.Type\<close> that the function calls\<close>

definition Kind :: "tenv \<Rightarrow> gotype \<Rightarrow> Kind" where
  "Kind env t = kindOfLiteral (underlying env t)"

text \<open>
  \<^verbatim>\<open>Elem\<close> panics unless the kind is Array, Chan, Map, Pointer or Slice. (In
  the messages of this panic and of the two for a type that is no struct,
  \<^verbatim>\<open>reflect\<close> goes on with the name of the type; no call of the function
  reaches them.)
\<close>

definition Elem :: "tenv \<Rightarrow> gotype \<Rightarrow> panic + gotype" where
  "Elem env t =
     (case underlying env t of
        PointerTo e \<Rightarrow> Inr e
      | ArrayOf n e \<Rightarrow> Inr e
      | SliceOf e \<Rightarrow> Inr e
      | MapOf k e \<Rightarrow> Inr e
      | ChanOf d e \<Rightarrow> Inr e
      | _ \<Rightarrow> Inl (ReflectPanic ''reflect: Elem of invalid type''))"

text \<open>\<^verbatim>\<open>NumField\<close> panics unless the kind is Struct.\<close>

definition NumField :: "tenv \<Rightarrow> gotype \<Rightarrow> panic + nat" where
  "NumField env t =
     (case underlying env t of
        StructOf pkg fs \<Rightarrow> Inr (length fs)
      | _ \<Rightarrow> Inl (ReflectPanic ''reflect: NumField of non-struct type''))"

text \<open>
  \<^verbatim>\<open>Field(i)\<close> panics unless the kind is Struct, and panics when \<open>i\<close> is not
  below the number of fields. (The index is an \<^verbatim>\<open>int\<close> that the loop only ever
  counts up from 0, so it is a natural number here. The method is \<^verbatim>\<open>Field\<close>;
  that name is taken in HOL.)
\<close>

definition Field_at :: "tenv \<Rightarrow> gotype \<Rightarrow> nat \<Rightarrow> panic + StructField" where
  "Field_at env t i =
     (case underlying env t of
        StructOf pkg fs \<Rightarrow>
          (if i < length fs then Inr (fs ! i)
           else Inl (ReflectPanic ''reflect: Field index out of bounds''))
      | _ \<Rightarrow> Inl (ReflectPanic ''reflect: Field of non-struct type''))"

text \<open>
  \<^verbatim>\<open>src.ConvertibleTo(dst)\<close> for a source of kind Struct, which the one call on
  line 81 guarantees. For such a source the conversion table of \<^verbatim>\<open>reflect\<close> has a
  single applicable entry when the destination is no interface: both types have
  identical underlying types, compared without struct tags. (A struct is never
  convertible to a type of another kind except to an interface it implements; the call
  site has already established that the destination is of kind Struct.)
\<close>

definition ConvertibleTo :: "tenv \<Rightarrow> gotype \<Rightarrow> gotype \<Rightarrow> bool" where
  "ConvertibleTo env src dst \<longleftrightarrow> underlying env src = underlying env dst"

section \<open>Values and the store\<close>

text \<open>
  Values are kept at the level of fields: a struct value is the list of its field
  values, a pointer is an address in the store or nil, a value of interface type is nil
  or a dynamic type with a value of that type. \<open>VOther\<close> stands for a value of any
  kind not listed (floating point, slices, maps and so on), which the function only
  moves.
\<close>

type_synonym addr = nat

datatype val =
    VBool bool
  | VInt int
  | VStr string
  | VPtr "addr option"
  | VStruct "val list"
  | VIface "(gotype \<times> val) option"
  | VOther nat

type_synonym store = "addr \<rightharpoonup> val"

text \<open>
  The conversion of a value of static type \<open>T\<close> to \<^verbatim>\<open>any\<close>, which is what
  \<^verbatim>\<open>reflect.TypeOf\<close> and \<^verbatim>\<open>reflect.ValueOf\<close> receive: a value of an interface
  type keeps its dynamic type and value (or stays nil), a value of any other type is
  paired with \<open>T\<close>.
\<close>

definition toAny :: "tenv \<Rightarrow> gotype \<Rightarrow> val \<Rightarrow> (gotype \<times> val) option" where
  "toAny env T v =
     (if Kind env T = Interface then (case v of VIface b \<Rightarrow> b | _ \<Rightarrow> None)
      else Some (T, v))"

text \<open>\<^verbatim>\<open>reflect.TypeOf\<close>: the dynamic type, nil for a nil interface value.\<close>

definition TypeOf :: "(gotype \<times> val) option \<Rightarrow> gotype option" where
  "TypeOf i = map_option fst i"

text \<open>
  The zero value of \<open>T\<close> converted to \<^verbatim>\<open>any\<close>, as far as its type goes: the named
  result \<^verbatim>\<open>t2\<close> is a nil interface when \<open>T2\<close> is an interface type.
\<close>

definition TypeOfZero :: "tenv \<Rightarrow> gotype \<Rightarrow> gotype option" where
  "TypeOfZero env T = (if Kind env T = Interface then None else Some T)"

text \<open>
  \<^verbatim>\<open>reflect.ValueOf(t1).UnsafePointer()\<close>: the address held by a value of kind
  Pointer.
\<close>

definition UnsafePointer :: "(gotype \<times> val) option \<Rightarrow> panic + addr option" where
  "UnsafePointer i =
     (case i of
        Some (t, VPtr p) \<Rightarrow> Inr p
      | _ \<Rightarrow> Inl (ReflectPanic ''reflect: call of reflect.Value.UnsafePointer on non-pointer Value''))"

text \<open>
  Reading a value of the struct type \<open>T2\<close> at an address (\<^verbatim>\<open>*(*T2)(p)\<close>). A nil
  address is the runtime's nil dereference. Otherwise the read takes the storage of the
  object at that address from its start: with \<open>n\<close> the number of fields of \<open>T2\<close>,
  the result has the first \<open>n\<close> field values of the object. (Go places the fields of a
  struct in declaration order, each at the first offset that suits its own type after
  the fields before it, so two structs whose first \<open>n\<close> fields agree in kind have those
  fields at the same offsets.) A read that would leave the object, or that finds no
  struct there, has no meaning in Go; it is the separate outcome \<open>UndefinedRead\<close>.
\<close>

definition UndefinedRead :: panic where
  "UndefinedRead = RuntimeError ''read outside the object the pointer refers to''"

definition readAs :: "tenv \<Rightarrow> gotype \<Rightarrow> store \<Rightarrow> addr option \<Rightarrow> panic + val" where
  "readAs env T2 h p =
     (case p of
        None \<Rightarrow> Inl nilDereference
      | Some a \<Rightarrow>
          (case h a of
             Some (VStruct vs) \<Rightarrow>
               andThen (NumField env T2) (\<lambda>n.
                 if n \<le> length vs then Inr (VStruct (take n vs)) else Inl UndefinedRead)
           | _ \<Rightarrow> Inl UndefinedRead))"

section \<open>The program\<close>

text \<open>\<^verbatim>\<open>validKinds\<close> (lines 107-119) and \<^verbatim>\<open>isValidKind\<close> (lines 121-128).\<close>

definition validKinds :: "Kind list" where
  "validKinds =
     [Bool, Int_kind, Int8, Int32, Int64, Uint, Uint8, Uint32, Uint64, Float32, Float64]"

text \<open>The \<^verbatim>\<open>range\<close> loop of \<^verbatim>\<open>isValidKind\<close> over the rest of the array.\<close>

fun isValidKind_range :: "Kind list \<Rightarrow> Kind \<Rightarrow> bool" where
  "isValidKind_range [] kind = False"
| "isValidKind_range (validKind # rest) kind =
     (if kind = validKind then True else isValidKind_range rest kind)"

definition isValidKind :: "Kind \<Rightarrow> bool" where
  "isValidKind kind = isValidKind_range validKinds kind"

text \<open>
  One pass through the body of the loop of \<^verbatim>\<open>ConvertTo\<close> (lines 88-101) at index
  \<open>i\<close>. The target's field is fetched first, then the source's; the kinds are compared
  as declared; only then is one pointer level taken off each side, and the kinds that
  remain are looked up in \<^verbatim>\<open>validKinds\<close>.
\<close>

definition fieldCheck :: "tenv \<Rightarrow> gotype \<Rightarrow> gotype \<Rightarrow> nat \<Rightarrow> panic + unit" where
  "fieldCheck env elmTyp1 elmTyp2 i =
     andThen (Field_at env elmTyp2 i) (\<lambda>sf2.
     andThen (Field_at env elmTyp1 i) (\<lambda>sf1.
       let ftyp2 = Type sf2; ftyp1 = Type sf1 in
       if Kind env ftyp1 \<noteq> Kind env ftyp2 then Inl (FieldKindMismatch i)
       else
         andThen (if Kind env ftyp1 = Pointer then Elem env ftyp1 else Inr ftyp1) (\<lambda>ftyp1.
         andThen (if Kind env ftyp2 = Pointer then Elem env ftyp2 else Inr ftyp2) (\<lambda>ftyp2.
           if \<not> isValidKind (Kind env ftyp1) \<or> \<not> isValidKind (Kind env ftyp2)
           then Inl (UnsupportedFieldKind i)
           else Inr ()))))"

text \<open>
  The loop itself (line 87), from index \<open>i\<close> on. The bound is asked of the target type
  at every test, as in the source.
\<close>

function fieldLoop :: "tenv \<Rightarrow> gotype \<Rightarrow> gotype \<Rightarrow> nat \<Rightarrow> panic + unit" where
  "fieldLoop env elmTyp1 elmTyp2 i =
     (case NumField env elmTyp2 of
        Inl p \<Rightarrow> Inl p
      | Inr n \<Rightarrow>
          if i < n then
            (case fieldCheck env elmTyp1 elmTyp2 i of
               Inl p \<Rightarrow> Inl p
             | Inr u \<Rightarrow> fieldLoop env elmTyp1 elmTyp2 (i + 1))
          else Inr ())"
  by pat_completeness auto
termination
  by (relation "measure (\<lambda>(env, e1, e2, i). case NumField env e2 of Inl p \<Rightarrow> 0 | Inr n \<Rightarrow> n - i)")
     auto

text \<open>
  Lines 73-102: everything \<^verbatim>\<open>ConvertTo\<close> does before it touches the source value.
  \<open>ttyp1\<close> and \<open>ttyp2\<close> are the results of \<^verbatim>\<open>reflect.TypeOf\<close>, nil included: a
  method call on a nil \<^verbatim>\<open>reflect.Type\<close> is a nil dereference. The \<^verbatim>\<open>||\<close> on
  line 73 asks for \<^verbatim>\<open>Elem\<close> only when the kind is Pointer. Line 84 compares the
  field count of \<open>elmTyp1\<close> with itself, as written.
\<close>

definition checks :: "tenv \<Rightarrow> gotype option \<Rightarrow> gotype option \<Rightarrow> panic + unit" where
  "checks env ttyp1 ttyp2 =
     (case ttyp1 of
        None \<Rightarrow> Inl nilDereference
      | Some typ1 \<Rightarrow>
          andThen (if Kind env typ1 \<noteq> Pointer then Inr True
                   else andThen (Elem env typ1) (\<lambda>e. Inr (Kind env e \<noteq> Struct)))
            (\<lambda>notPointerToStruct.
          if notPointerToStruct then Inl InvalidSourceShape
          else
            (case ttyp2 of
               None \<Rightarrow> Inl nilDereference
             | Some typ2 \<Rightarrow>
                 if Kind env typ2 \<noteq> Struct then Inl InvalidTargetShape
                 else
                   andThen (Elem env typ1) (\<lambda>elmTyp1.
                     let elmTyp2 = typ2 in
                     if ConvertibleTo env elmTyp1 elmTyp2 then Inl RedundantConversion
                     else
                       andThen (NumField env elmTyp1) (\<lambda>n1.
                       andThen (NumField env elmTyp1) (\<lambda>n1'.
                         if n1 < n1' then Inl TargetTooLarge
                         else fieldLoop env elmTyp1 elmTyp2 0))))))"

text \<open>
  Line 103: the address is taken out of the source value and a \<open>T2\<close> is read there.
\<close>

definition reinterpret :: "tenv \<Rightarrow> gotype \<Rightarrow> gotype \<Rightarrow> val \<Rightarrow> store \<Rightarrow> panic + val" where
  "reinterpret env T1 T2 t1 h = andThen (UnsafePointer (toAny env T1 t1)) (readAs env T2 h)"

text \<open>
  \<^verbatim>\<open>ConvertTo[T1, T2](t1)\<close> in a store \<open>h\<close>: the outcome and the store after the
  call. The function has no assignment through a pointer; its one access to the store
  is the read on line 103, after all checks. \<^verbatim>\<open>validKinds\<close> is a package-level
  variable that no statement of the program assigns to, so it is a constant here.
\<close>

definition ConvertTo :: "tenv \<Rightarrow> gotype \<Rightarrow> gotype \<Rightarrow> val \<Rightarrow> store \<Rightarrow> (panic + val) \<times> store" where
  "ConvertTo env T1 T2 t1 h =
     (let ttyp1 = TypeOf (toAny env T1 t1); ttyp2 = TypeOfZero env T2 in
      case checks env ttyp1 ttyp2 of
        Inl p \<Rightarrow> (Inl p, h)
      | Inr u \<Rightarrow> (reinterpret env T1 T2 t1 h, h))"

text \<open>The types and the values of \<^verbatim>\<open>main\<close> (lines 130-146).\<close>

definition Type1 :: gotype where
  "Type1 = StructOf ''main''
     [StructField ''t1'' (Predeclared T_int8) False,
      StructField ''t2'' (PointerTo (Predeclared T_int32)) False,
      StructField ''t3'' (Predeclared T_string) False]"

definition Type2 :: gotype where
  "Type2 = StructOf ''main''
     [StructField ''tt1'' (Predeclared T_int8) False,
      StructField ''tt2'' (PointerTo (Predeclared T_int32)) False]"

definition mainEnv :: tenv where
  "mainEnv = [''main.Type1'' \<mapsto> Type1, ''main.Type2'' \<mapsto> Type2]"

text \<open>
  The store of \<^verbatim>\<open>main\<close> at the call: \<^verbatim>\<open>two\<close> at address 1, \<^verbatim>\<open>t1\<close> at
  address 2.
\<close>

definition mainStore :: store where
  "mainStore = [1 \<mapsto> VInt 2, 2 \<mapsto> VStruct [VInt 1, VPtr (Some 1), VStr ''test'']]"

section \<open>Vocabulary of the statements\<close>

text \<open>The fields of a type of kind Struct, in declaration order.\<close>

definition fieldsOf :: "tenv \<Rightarrow> gotype \<Rightarrow> StructField list" where
  "fieldsOf env t = (case underlying env t of StructOf pkg fs \<Rightarrow> fs | _ \<Rightarrow> [])"

text \<open>A type with one pointer level, if there is one, taken off, and its kind.\<close>

definition stripPointer :: "tenv \<Rightarrow> gotype \<Rightarrow> gotype" where
  "stripPointer env t = (case underlying env t of PointerTo e \<Rightarrow> e | _ \<Rightarrow> t)"

definition strippedKind :: "tenv \<Rightarrow> gotype \<Rightarrow> Kind" where
  "strippedKind env t = Kind env (stripPointer env t)"

text \<open>
  A call gets past the source-shape, target-shape and redundancy checks (lines 73-83):
  the type of the source is a pointer to the struct type \<open>elmTyp1\<close>, the target is a
  struct type, and the one is not convertible to the other.
\<close>

definition passesShapeAndRedundancy :: "tenv \<Rightarrow> gotype \<Rightarrow> gotype \<Rightarrow> val \<Rightarrow> gotype \<Rightarrow> bool" where
  "passesShapeAndRedundancy env T1 T2 t1 elmTyp1 \<longleftrightarrow>
     (case TypeOf (toAny env T1 t1) of
        None \<Rightarrow> False
      | Some typ1 \<Rightarrow> underlying env typ1 = PointerTo elmTyp1)
     \<and> Kind env elmTyp1 = Struct \<and> Kind env T2 = Struct
     \<and> underlying env elmTyp1 \<noteq> underlying env T2"

text \<open>The loop gets as far as index \<open>i\<close>: every pass before it ends without a panic.\<close>

definition passesBefore :: "tenv \<Rightarrow> gotype \<Rightarrow> gotype \<Rightarrow> nat \<Rightarrow> bool" where
  "passesBefore env elmTyp1 elmTyp2 i \<longleftrightarrow>
     (\<forall>j<i. fieldCheck env elmTyp1 elmTyp2 j = Inr ())"


text \<open>
  The same five with the fourth as the source has it: the kinds of the two fields are
  equal as declared, before any pointer level is taken off.
\<close>

definition codeInvariants :: "tenv \<Rightarrow> gotype option \<Rightarrow> gotype option \<Rightarrow> bool" where
  "codeInvariants env ttyp1 ttyp2 \<longleftrightarrow>
     (case (ttyp1, ttyp2) of
        (Some typ1, Some typ2) \<Rightarrow>
          (case underlying env typ1 of
             PointerTo e \<Rightarrow>
               Kind env e = Struct \<and> Kind env typ2 = Struct
               \<and> length (fieldsOf env typ2) \<le> length (fieldsOf env e)
               \<and> \<not> ConvertibleTo env e typ2
               \<and> list_all2
                    (\<lambda>f1 f2. Kind env (Type f1) = Kind env (Type f2))
                    (take (length (fieldsOf env typ2)) (fieldsOf env e)) (fieldsOf env typ2)
               \<and> list_all2
                    (\<lambda>f1 f2. isValidKind (strippedKind env (Type f1))
                            \<and> isValidKind (strippedKind env (Type f2)))
                    (take (length (fieldsOf env typ2)) (fieldsOf env e)) (fieldsOf env typ2)
           | _ \<Rightarrow> False)
      | _ \<Rightarrow> False)"


text \<open>Reading a field of a struct value, and reading through a pointer value.\<close>

definition fieldValue :: "val \<Rightarrow> nat \<Rightarrow> val option" where
  "fieldValue v i =
     (case v of VStruct vs \<Rightarrow> (if i < length vs then Some (vs ! i) else None) | _ \<Rightarrow> None)"

definition deref :: "store \<Rightarrow> val \<Rightarrow> val option" where
  "deref h v = (case v of VPtr (Some a) \<Rightarrow> h a | _ \<Rightarrow> None)"

subsection \<open>Types used as examples\<close>

text \<open>
  The pair the comment of \<^verbatim>\<open>ConvertTo\<close> gives as its first example (lines 29-38):
  \<open>docWide\<close> is the three-field struct, \<open>docNarrow\<close> the two-field one. Lines 58-67
  name the same two the other way round, the narrow one as source.
\<close>

definition docWide :: gotype where
  "docWide = StructOf ''main''
     [StructField ''t1'' (Predeclared T_int8) False,
      StructField ''t2'' (Predeclared T_int32) False,
      StructField ''t3'' (Predeclared T_string) False]"

definition docNarrow :: gotype where
  "docNarrow = StructOf ''main''
     [StructField ''tt1'' (Predeclared T_int8) False,
      StructField ''tt2'' (Predeclared T_int32) False]"

text \<open>A three-field target whose first two kinds are swapped against \<open>docNarrow\<close>.\<close>

definition swappedWide :: gotype where
  "swappedWide = StructOf ''main''
     [StructField ''t1'' (Predeclared T_int32) False,
      StructField ''t2'' (Predeclared T_int8) False,
      StructField ''t3'' (Predeclared T_string) False]"

text \<open>A pair with a 16-bit unsigned field at index 1 on both sides.\<close>

definition u16Wide :: gotype where
  "u16Wide = StructOf ''main''
     [StructField ''a'' (Predeclared T_int8) False,
      StructField ''b'' (Predeclared T_uint16) False,
      StructField ''c'' (Predeclared T_string) False]"

definition u16Narrow :: gotype where
  "u16Narrow = StructOf ''main''
     [StructField ''x'' (Predeclared T_int8) False,
      StructField ''y'' (Predeclared T_uint16) False]"

text \<open>A pair whose first fields are pointers to different integer types.\<close>

definition ptr8Wide :: gotype where
  "ptr8Wide = StructOf ''main''
     [StructField ''p'' (PointerTo (Predeclared T_int8)) False,
      StructField ''s'' (Predeclared T_string) False]"

definition ptr32Narrow :: gotype where
  "ptr32Narrow = StructOf ''main''
     [StructField ''q'' (PointerTo (Predeclared T_int32)) False]"

text \<open>The declarations of \<^verbatim>\<open>main\<close> with \<^verbatim>\<open>type Renamed Type1\<close> added.\<close>

definition renamedEnv :: tenv where
  "renamedEnv = mainEnv(''main.Renamed'' \<mapsto> Type1)"

section \<open>Facts about the reflect methods\<close>

declare fieldLoop.simps [simp del]

lemma kindOfPredeclared_not_composite:
  "kindOfPredeclared p \<noteq> Struct" "kindOfPredeclared p \<noteq> Pointer"
  "kindOfPredeclared p \<noteq> Interface"
  by (cases p; simp)+

lemma Kind_Struct_iff:
  "Kind env t = Struct \<longleftrightarrow> (\<exists>pkg fs. underlying env t = StructOf pkg fs)"
  unfolding Kind_def
  by (cases "underlying env t") (simp_all add: kindOfPredeclared_not_composite)

lemma Kind_Pointer_iff:
  "Kind env t = Pointer \<longleftrightarrow> (\<exists>e. underlying env t = PointerTo e)"
  unfolding Kind_def
  by (cases "underlying env t") (simp_all add: kindOfPredeclared_not_composite)

lemma NumField_Struct:
  "Kind env t = Struct \<Longrightarrow> NumField env t = Inr (length (fieldsOf env t))"
  by (auto simp: Kind_Struct_iff NumField_def fieldsOf_def)

lemma Field_at_Struct:
  "Kind env t = Struct \<Longrightarrow>
   Field_at env t i =
     (if i < length (fieldsOf env t) then Inr (fieldsOf env t ! i)
      else Inl (ReflectPanic ''reflect: Field index out of bounds''))"
  by (auto simp: Kind_Struct_iff Field_at_def fieldsOf_def)

lemma Elem_Pointer:
  "underlying env t = PointerTo e \<Longrightarrow> Elem env t = Inr e"
  by (simp add: Elem_def)

lemma Kind_of_Pointer:
  "underlying env t = PointerTo e \<Longrightarrow> Kind env t = Pointer"
  by (simp add: Kind_def)

lemma stripped_step:
  "andThen (if Kind env t = Pointer then Elem env t else Inr t) f = f (stripPointer env t)"
  by (cases "underlying env t")
     (simp_all add: Kind_def Elem_def stripPointer_def kindOfPredeclared_not_composite)

text \<open>
  One pass of the loop body, told by its outcome: where both fields exist, the declared
  kinds are compared first and the stripped kinds are looked up second.
\<close>

lemma fieldCheck_eq:
  assumes "Kind env e1 = Struct" "Kind env e2 = Struct" "i < length (fieldsOf env e2)"
  shows "fieldCheck env e1 e2 i =
    (if \<not> i < length (fieldsOf env e1)
       then Inl (ReflectPanic ''reflect: Field index out of bounds'')
     else if Kind env (Type (fieldsOf env e1 ! i)) \<noteq> Kind env (Type (fieldsOf env e2 ! i))
       then Inl (FieldKindMismatch i)
     else if \<not> isValidKind (strippedKind env (Type (fieldsOf env e1 ! i)))
             \<or> \<not> isValidKind (strippedKind env (Type (fieldsOf env e2 ! i)))
       then Inl (UnsupportedFieldKind i)
     else Inr ())"
  unfolding fieldCheck_def Let_def stripped_step strippedKind_def
    Field_at_Struct [OF assms(1)] Field_at_Struct [OF assms(2)]
  using assms(3) by simp

subsection \<open>The loop\<close>

lemma fieldLoop_done:
  "NumField env e2 = Inr n \<Longrightarrow> n \<le> i \<Longrightarrow> fieldLoop env e1 e2 i = Inr ()"
  by (subst fieldLoop.simps) simp

lemma fieldLoop_fail:
  "NumField env e2 = Inr n \<Longrightarrow> i < n \<Longrightarrow> fieldCheck env e1 e2 i = Inl p \<Longrightarrow>
   fieldLoop env e1 e2 i = Inl p"
  by (subst fieldLoop.simps) simp

lemma fieldLoop_next:
  "NumField env e2 = Inr n \<Longrightarrow> i < n \<Longrightarrow> fieldCheck env e1 e2 i = Inr () \<Longrightarrow>
   fieldLoop env e1 e2 i = fieldLoop env e1 e2 (Suc i)"
  by (subst fieldLoop.simps) simp

text \<open>The loop stops at the first index whose pass panics, with that panic.\<close>

lemma fieldLoop_first_failure:
  assumes n: "NumField env e2 = Inr n"
    and k: "k < n" and fail: "fieldCheck env e1 e2 k = Inl p"
  shows "i \<le> k \<Longrightarrow> (\<forall>j. i \<le> j \<and> j < k \<longrightarrow> fieldCheck env e1 e2 j = Inr ()) \<Longrightarrow>
         fieldLoop env e1 e2 i = Inl p"
proof (induction "k - i" arbitrary: i)
  case 0
  then have "i = k" by simp
  with n k fail show ?case by (simp add: fieldLoop_fail)
next
  case (Suc d)
  then have lt: "i < k" by simp
  with Suc.prems have ok: "fieldCheck env e1 e2 i = Inr ()" by simp
  have "fieldLoop env e1 e2 i = fieldLoop env e1 e2 (Suc i)"
    using n lt k ok by (simp add: fieldLoop_next)
  also have "\<dots> = Inl p"
    using Suc.hyps Suc.prems lt by (intro Suc.hyps(1)) auto
  finally show ?case .
qed

text \<open>The loop ends without a panic exactly when every pass from \<open>i\<close> on does.\<close>

lemma fieldLoop_ok_iff:
  assumes n: "NumField env e2 = Inr n"
  shows "fieldLoop env e1 e2 i = Inr () \<longleftrightarrow>
         (\<forall>j. i \<le> j \<and> j < n \<longrightarrow> fieldCheck env e1 e2 j = Inr ())"
proof (induction "n - i" arbitrary: i)
  case 0
  then show ?case using n by (auto simp: fieldLoop_done)
next
  case (Suc d)
  then have lt: "i < n" by simp
  show ?case
  proof (cases "fieldCheck env e1 e2 i")
    case (Inl p)
    then show ?thesis using n lt by (auto simp: fieldLoop_fail)
  next
    case (Inr u)
    then have ok: "fieldCheck env e1 e2 i = Inr ()" by simp
    have ih: "fieldLoop env e1 e2 (Suc i) = Inr () \<longleftrightarrow>
        (\<forall>j. Suc i \<le> j \<and> j < n \<longrightarrow> fieldCheck env e1 e2 j = Inr ())"
      using Suc.hyps by (intro Suc.hyps(1)) simp
    have "(\<forall>j. i \<le> j \<and> j < n \<longrightarrow> fieldCheck env e1 e2 j = Inr ()) \<longleftrightarrow>
        (\<forall>j. Suc i \<le> j \<and> j < n \<longrightarrow> fieldCheck env e1 e2 j = Inr ())"
    proof (intro iffI allI impI)
      fix j assume a: "\<forall>j. Suc i \<le> j \<and> j < n \<longrightarrow> fieldCheck env e1 e2 j = Inr ()"
        and j: "i \<le> j \<and> j < n"
      show "fieldCheck env e1 e2 j = Inr ()"
      proof (cases "j = i")
        case True
        then show ?thesis using ok by simp
      next
        case False
        with j have "Suc i \<le> j \<and> j < n" by simp
        with a show ?thesis by blast
      qed
    qed simp
    then show ?thesis using n lt ok ih by (simp add: fieldLoop_next)
  qed
qed

subsection \<open>From the loop to the call\<close>

text \<open>
  Past the shape and redundancy checks, what is left of lines 73-102 is the loop: the
  comparison on line 84 has the same number on both sides.
\<close>

lemma checks_loop:
  assumes u: "underlying env typ1 = PointerTo e"
    and k1: "Kind env e = Struct" and k2: "Kind env typ2 = Struct"
    and nc: "underlying env e \<noteq> underlying env typ2"
  shows "checks env (Some typ1) (Some typ2) = fieldLoop env e typ2 0"
  unfolding checks_def
  by (simp add: Kind_of_Pointer [OF u] Elem_Pointer [OF u] k1 k2 nc ConvertibleTo_def
      NumField_Struct [OF k1])

lemma TypeOfZero_Struct: "Kind env T2 = Struct \<Longrightarrow> TypeOfZero env T2 = Some T2"
  by (simp add: TypeOfZero_def)

lemma checks_is_loop:
  assumes "passesShapeAndRedundancy env T1 T2 t1 elmTyp1"
  shows "checks env (TypeOf (toAny env T1 t1)) (TypeOfZero env T2) = fieldLoop env elmTyp1 T2 0"
proof -
  from assms obtain typ1 where t: "TypeOf (toAny env T1 t1) = Some typ1"
    and u: "underlying env typ1 = PointerTo elmTyp1"
    and k1: "Kind env elmTyp1 = Struct" and k2: "Kind env T2 = Struct"
    and nc: "underlying env elmTyp1 \<noteq> underlying env T2"
    by (auto simp: passesShapeAndRedundancy_def split: option.splits)
  show ?thesis
    unfolding t TypeOfZero_Struct [OF k2] by (rule checks_loop [OF u k1 k2 nc])
qed

lemma ConvertTo_panics:
  "checks env (TypeOf (toAny env T1 t1)) (TypeOfZero env T2) = Inl p \<Longrightarrow>
   ConvertTo env T1 T2 t1 h = (Inl p, h)"
  by (simp add: ConvertTo_def)

lemma ConvertTo_reads:
  "checks env (TypeOf (toAny env T1 t1)) (TypeOfZero env T2) = Inr u \<Longrightarrow>
   ConvertTo env T1 T2 t1 h = (reinterpret env T1 T2 t1 h, h)"
  by (simp add: ConvertTo_def)

text \<open>
  A call that is past the shape and redundancy checks and whose loop reaches an index
  where the pass panics ends with that panic, the store as it was.
\<close>

lemma ConvertTo_fails_at:
  assumes "passesShapeAndRedundancy env T1 T2 t1 elmTyp1"
    and "i < length (fieldsOf env T2)"
    and "passesBefore env elmTyp1 T2 i"
    and "fieldCheck env elmTyp1 T2 i = Inl p"
  shows "ConvertTo env T1 T2 t1 h = (Inl p, h)"
proof -
  have k2: "Kind env T2 = Struct"
    using assms(1) by (simp add: passesShapeAndRedundancy_def)
  have "fieldLoop env elmTyp1 T2 0 = Inl p"
    using fieldLoop_first_failure [OF NumField_Struct [OF k2] assms(2) assms(4), of 0] assms(3)
    by (simp add: passesBefore_def)
  then show ?thesis
    using checks_is_loop [OF assms(1)] by (simp add: ConvertTo_panics)
qed

lemma isValidKind_iff:
  "isValidKind k \<longleftrightarrow>
     k \<in> {Bool, Int_kind, Int8, Int32, Int64, Uint, Uint8, Uint32, Uint64, Float32, Float64}"
  by (auto simp: isValidKind_def validKinds_def)

text \<open>A loop that ends in a panic got it from the pass at some index.\<close>

lemma fieldLoop_Inl:
  assumes n: "NumField env e2 = Inr n"
  shows "fieldLoop env e1 e2 i = Inl p \<Longrightarrow>
         \<exists>k. i \<le> k \<and> k < n \<and> fieldCheck env e1 e2 k = Inl p"
proof (induction "n - i" arbitrary: i)
  case 0
  then show ?case using n by (simp add: fieldLoop_done)
next
  case (Suc d)
  then have lt: "i < n" by simp
  show ?case
  proof (cases "fieldCheck env e1 e2 i")
    case (Inl q)
    then have "fieldLoop env e1 e2 i = Inl q" using n lt by (simp add: fieldLoop_fail)
    with Suc.prems Inl lt show ?thesis by auto
  next
    case (Inr u)
    then have "fieldLoop env e1 e2 i = fieldLoop env e1 e2 (Suc i)"
      using n lt by (simp add: fieldLoop_next)
    with Suc.prems have "fieldLoop env e1 e2 (Suc i) = Inl p" by simp
    moreover have "d = n - Suc i" using Suc.hyps(2) by simp
    ultimately obtain k where "Suc i \<le> k" "k < n" "fieldCheck env e1 e2 k = Inl p"
      using Suc.hyps(1) by blast
    then show ?thesis by (intro exI [of _ k]) simp
  qed
qed

lemma fieldCheck_not_TargetTooLarge:
  assumes "Kind env e1 = Struct" "Kind env e2 = Struct" "i < length (fieldsOf env e2)"
  shows "fieldCheck env e1 e2 i \<noteq> Inl TargetTooLarge"
  by (simp add: fieldCheck_eq [OF assms])

lemma passesBefore_0: "passesBefore env e1 e2 0"
  by (simp add: passesBefore_def)

lemma passesBefore_Suc:
  "passesBefore env e1 e2 (Suc i) \<longleftrightarrow>
   passesBefore env e1 e2 i \<and> fieldCheck env e1 e2 i = Inr ()"
  by (auto simp: passesBefore_def less_Suc_eq)

text \<open>The read on line 103 can only end in a panic of reflect or of the runtime.\<close>

lemma reinterpret_panic:
  "reinterpret env T1 T2 t1 h = Inl p \<Longrightarrow> (\<exists>m. p = ReflectPanic m) \<or> (\<exists>m. p = RuntimeError m)"
  unfolding reinterpret_def UnsafePointer_def readAs_def NumField_def nilDereference_def
    UndefinedRead_def
  by (auto split: option.splits val.splits gotype.splits prod.splits if_splits)

subsection \<open>The checks as a whole\<close>

text \<open>
  Lines 73-102 by their outcome, in the order of the statements: the source shape, the
  target shape, the convertibility test, and the loop. The comparison on line 84 has
  no case of its own.
\<close>

lemma checks_eq:
  "checks env ttyp1 ttyp2 =
     (case ttyp1 of
        None \<Rightarrow> Inl nilDereference
      | Some typ1 \<Rightarrow>
          (case underlying env typ1 of
             PointerTo e \<Rightarrow>
               if Kind env e \<noteq> Struct then Inl InvalidSourceShape
               else
                 (case ttyp2 of
                    None \<Rightarrow> Inl nilDereference
                  | Some typ2 \<Rightarrow>
                      if Kind env typ2 \<noteq> Struct then Inl InvalidTargetShape
                      else if underlying env e = underlying env typ2
                        then Inl RedundantConversion
                      else fieldLoop env e typ2 0)
           | _ \<Rightarrow> Inl InvalidSourceShape))"
proof (cases ttyp1)
  case None
  then show ?thesis by (simp add: checks_def)
next
  case (Some typ1)
  show ?thesis
  proof (cases "Kind env typ1 = Pointer")
    case False
    then have "checks env ttyp1 ttyp2 = Inl InvalidSourceShape"
      using Some by (simp add: checks_def)
    moreover have "\<And>e. underlying env typ1 \<noteq> PointerTo e"
      using False by (simp add: Kind_Pointer_iff)
    ultimately show ?thesis
      using Some by (cases "underlying env typ1") auto
  next
    case True
    then obtain e where u: "underlying env typ1 = PointerTo e"
      by (auto simp: Kind_Pointer_iff)
    show ?thesis
    proof (cases "Kind env e = Struct")
      case False
      then show ?thesis
        using Some u True by (simp add: checks_def Elem_Pointer [OF u])
    next
      case k1: True
      show ?thesis
      proof (cases ttyp2)
        case None
        then show ?thesis
          using Some u True k1 by (simp add: checks_def Elem_Pointer [OF u])
      next
        case typ2: (Some typ2)
        show ?thesis
        proof (cases "Kind env typ2 = Struct")
          case False
          then show ?thesis
            using Some u True k1 typ2 by (simp add: checks_def Elem_Pointer [OF u])
        next
          case k2: True
          show ?thesis
          proof (cases "underlying env e = underlying env typ2")
            case True
            then show ?thesis
              using Some u \<open>Kind env typ1 = Pointer\<close> k1 k2 typ2
              by (simp add: checks_def Elem_Pointer [OF u] ConvertibleTo_def)
          next
            case False
            then show ?thesis
              using Some u k1 k2 typ2 checks_loop [OF u k1 k2 False] by simp
          qed
        qed
      qed
    qed
  qed
qed

lemma fieldCheck_ok_iff:
  assumes "Kind env e1 = Struct" "Kind env e2 = Struct" "i < length (fieldsOf env e2)"
  shows "fieldCheck env e1 e2 i = Inr () \<longleftrightarrow>
     i < length (fieldsOf env e1)
     \<and> Kind env (Type (fieldsOf env e1 ! i)) = Kind env (Type (fieldsOf env e2 ! i))
     \<and> isValidKind (strippedKind env (Type (fieldsOf env e1 ! i)))
     \<and> isValidKind (strippedKind env (Type (fieldsOf env e2 ! i)))"
  by (simp add: fieldCheck_eq [OF assms])

lemma loop_ok_iff_invariants:
  assumes k1: "Kind env e1 = Struct" and k2: "Kind env e2 = Struct"
  shows "fieldLoop env e1 e2 0 = Inr () \<longleftrightarrow>
     length (fieldsOf env e2) \<le> length (fieldsOf env e1)
     \<and> list_all2 (\<lambda>f1 f2. Kind env (Type f1) = Kind env (Type f2))
          (take (length (fieldsOf env e2)) (fieldsOf env e1)) (fieldsOf env e2)
     \<and> list_all2 (\<lambda>f1 f2. isValidKind (strippedKind env (Type f1))
                         \<and> isValidKind (strippedKind env (Type f2)))
          (take (length (fieldsOf env e2)) (fieldsOf env e1)) (fieldsOf env e2)"
    (is "?L \<longleftrightarrow> ?R")
proof -
  let ?fs1 = "fieldsOf env e1" and ?fs2 = "fieldsOf env e2"
  have L: "?L \<longleftrightarrow> (\<forall>j<length ?fs2. fieldCheck env e1 e2 j = Inr ())"
    using fieldLoop_ok_iff [OF NumField_Struct [OF k2], of e1 0] by simp
  show ?thesis
  proof
    assume ?L
    with L have all: "\<And>j. j < length ?fs2 \<Longrightarrow> fieldCheck env e1 e2 j = Inr ()" by simp
    have le: "length ?fs2 \<le> length ?fs1"
    proof (rule ccontr)
      assume "\<not> length ?fs2 \<le> length ?fs1"
      then have lt: "length ?fs1 < length ?fs2" by simp
      from all [OF lt] show False by (simp add: fieldCheck_ok_iff [OF k1 k2 lt])
    qed
    have each: "\<And>j. j < length ?fs2 \<Longrightarrow>
        Kind env (Type (?fs1 ! j)) = Kind env (Type (?fs2 ! j))
        \<and> isValidKind (strippedKind env (Type (?fs1 ! j)))
        \<and> isValidKind (strippedKind env (Type (?fs2 ! j)))"
      using all by (simp add: fieldCheck_ok_iff [OF k1 k2])
    show ?R
      using le each by (simp add: list_all2_conv_all_nth min_absorb2)
  next
    assume R: ?R
    then have le: "length ?fs2 \<le> length ?fs1" by simp
    have "\<And>j. j < length ?fs2 \<Longrightarrow> fieldCheck env e1 e2 j = Inr ()"
    proof -
      fix j assume j: "j < length ?fs2"
      with le have j1: "j < length ?fs1" by simp
      from R j le show "fieldCheck env e1 e2 j = Inr ()"
        by (simp add: fieldCheck_ok_iff [OF k1 k2 j] j1 list_all2_conv_all_nth min_absorb2)
    qed
    with L show ?L by simp
  qed
qed

text \<open>The checks pass exactly when the invariants hold in the form the source tests them.\<close>

lemma checks_ok_iff:
  "checks env ttyp1 ttyp2 = Inr () \<longleftrightarrow> codeInvariants env ttyp1 ttyp2"
proof (cases ttyp1)
  case None
  then show ?thesis by (simp add: checks_eq codeInvariants_def)
next
  case t1: (Some typ1)
  show ?thesis
  proof (cases ttyp2)
    case None
    then show ?thesis
      using t1 by (simp add: checks_eq codeInvariants_def split: gotype.splits)
  next
    case t2: (Some typ2)
    show ?thesis
    proof (cases "\<exists>e. underlying env typ1 = PointerTo e")
      case False
      then show ?thesis
        using t1 t2 by (cases "underlying env typ1") (simp_all add: checks_eq codeInvariants_def)
    next
      case True
      then obtain e where u: "underlying env typ1 = PointerTo e" by blast
      show ?thesis
      proof (cases "Kind env e = Struct \<and> Kind env typ2 = Struct")
        case False
        then show ?thesis
          using t1 t2 u by (auto simp: checks_eq codeInvariants_def)
      next
        case True
        then have k: "Kind env e = Struct" "Kind env typ2 = Struct" by simp_all
        show ?thesis
          using t1 t2 u k loop_ok_iff_invariants [OF k]
          by (simp add: checks_eq codeInvariants_def ConvertibleTo_def)
      qed
    qed
  qed
qed

lemma strippedKind_plain: "Kind env t \<noteq> Pointer \<Longrightarrow> strippedKind env t = Kind env t"
  by (cases "underlying env t") (simp_all add: strippedKind_def stripPointer_def Kind_def)

lemma fieldsOf_nonempty: "fieldsOf env t \<noteq> [] \<Longrightarrow> Kind env t = Struct"
  by (cases "underlying env t") (simp_all add: fieldsOf_def Kind_def)

text \<open>A panic of the call comes from the checks or from the read.\<close>

lemma ConvertTo_fst_Inl:
  "fst (ConvertTo env T1 T2 t1 h) = Inl p \<Longrightarrow>
   checks env (TypeOf (toAny env T1 t1)) (TypeOfZero env T2) = Inl p
   \<or> (\<exists>m. p = ReflectPanic m) \<or> (\<exists>m. p = RuntimeError m)"
  using reinterpret_panic [of env T1 T2 t1 h p]
  by (cases "checks env (TypeOf (toAny env T1 t1)) (TypeOfZero env T2)")
     (auto simp: ConvertTo_def)

text \<open>
  No call ends with the panic of line 85: the comparison on line 84 is never true, and
  no other statement raises it.
\<close>

lemma TargetTooLarge_never_raised:
  "fst (ConvertTo env T1 T2 t1 h) \<noteq> Inl TargetTooLarge"
proof
  assume "fst (ConvertTo env T1 T2 t1 h) = Inl TargetTooLarge"
  then have c: "checks env (TypeOf (toAny env T1 t1)) (TypeOfZero env T2) = Inl TargetTooLarge"
    using ConvertTo_fst_Inl by blast
  then obtain typ1 typ2 e where k: "Kind env e = Struct" "Kind env typ2 = Struct"
    and l: "fieldLoop env e typ2 0 = Inl TargetTooLarge"
    by (auto simp: checks_eq nilDereference_def split: option.splits gotype.splits if_splits)
  then obtain j where "j < length (fieldsOf env typ2)"
      "fieldCheck env e typ2 j = Inl TargetTooLarge"
    using fieldLoop_Inl [OF NumField_Struct [OF k(2)]] by blast
  then show False
    using fieldCheck_not_TargetTooLarge [OF k] by blast
qed

subsection \<open>Unfolding sets for evaluation at concrete inputs\<close>

lemmas eval_defs =
  ConvertTo_def checks_def TypeOf_def toAny_def TypeOfZero_def Kind_def underlying_def
  Elem_def ConvertibleTo_def NumField_def fieldCheck_def Field_at_def isValidKind_def
  validKinds_def UnsafePointer_def readAs_def reinterpret_def fieldLoop.simps

lemmas example_defs =
  Type1_def Type2_def mainEnv_def mainStore_def docWide_def docNarrow_def swappedWide_def
  u16Wide_def u16Narrow_def ptr8Wide_def ptr32Narrow_def renamedEnv_def

lemmas vocabulary_defs =
  fieldsOf_def stripPointer_def strippedKind_def passesShapeAndRedundancy_def

section \<open>The claims\<close>

text \<open>
  Claim C1 says that a target with more fields than the source's pointee fails with
  \<open>TargetTooLarge\<close>. The source does not do that. At the pair of lines 58-67 of the
  comment (narrow source, wide target) the comparison on line 84 has the same count on
  both sides, the loop passes indices 0 and 1, and at index 2 the lookup of the source's
  field panics inside \<^verbatim>\<open>reflect\<close>.
\<close>

theorem larger_target_panics_in_reflect:
  "ConvertTo Map.empty (PointerTo docNarrow) docWide (VPtr (Some 1))
     [1 \<mapsto> VStruct [VInt 1, VInt 2]]
   = (Inl (ReflectPanic ''reflect: Field index out of bounds''),
      [1 \<mapsto> VStruct [VInt 1, VInt 2]])
   \<and> length (fieldsOf Map.empty docNarrow) < length (fieldsOf Map.empty docWide)"
  by (simp add: eval_defs example_defs vocabulary_defs)

text \<open>
  Claim C7 says that the checks run in the order source shape, target shape,
  redundancy, size, fields, and that the first failing one is reported. With a narrow
  source and a wide target whose first field kinds differ, size fails before any field
  in that order; the source reports the field at index 0, since line 84 never fires.
\<close>

theorem size_violation_reported_as_field_mismatch:
  "ConvertTo Map.empty (PointerTo docNarrow) swappedWide (VPtr (Some 1))
     [1 \<mapsto> VStruct [VInt 1, VInt 2]]
   = (Inl (FieldKindMismatch 0), [1 \<mapsto> VStruct [VInt 1, VInt 2]])
   \<and> length (fieldsOf Map.empty docNarrow) < length (fieldsOf Map.empty swappedWide)"
  by (simp add: eval_defs example_defs vocabulary_defs)



text \<open>
  Claim C6: when the source type is a pointer to a struct and the target is a struct
  with more fields, the call never returns a value. The comparison on line 84 does not
  stop it (the panic is never \<open>TargetTooLarge\<close>); the loop runs up to the target's
  field count, and unless an earlier pass panics, the lookup of the source's field at
  the source's own field count panics inside \<^verbatim>\<open>reflect\<close>.
\<close>

theorem larger_target_never_returns:
  assumes "TypeOf (toAny env T1 t1) = Some typ1"
    and "underlying env typ1 = PointerTo elmTyp1"
    and "Kind env elmTyp1 = Struct" and "Kind env T2 = Struct"
    and "length (fieldsOf env elmTyp1) < length (fieldsOf env T2)"
  shows "(\<exists>p. ConvertTo env T1 T2 t1 h = (Inl p, h) \<and> p \<noteq> TargetTooLarge)
       \<and> (passesBefore env elmTyp1 T2 (length (fieldsOf env elmTyp1)) \<longrightarrow>
            ConvertTo env T1 T2 t1 h
              = (Inl (ReflectPanic ''reflect: Field index out of bounds''), h))"
proof -
  let ?n1 = "length (fieldsOf env elmTyp1)"
  have ne: "underlying env elmTyp1 \<noteq> underlying env T2"
    using assms(5) by (auto simp: fieldsOf_def)
  have pass: "passesShapeAndRedundancy env T1 T2 t1 elmTyp1"
    using assms(1-4) ne by (simp add: passesShapeAndRedundancy_def)
  have n2: "NumField env T2 = Inr (length (fieldsOf env T2))"
    by (rule NumField_Struct [OF assms(4)])
  have oob: "fieldCheck env elmTyp1 T2 ?n1
      = Inl (ReflectPanic ''reflect: Field index out of bounds'')"
    by (simp add: fieldCheck_eq [OF assms(3,4,5)])
  have "fieldLoop env elmTyp1 T2 0 \<noteq> Inr ()"
    using fieldLoop_ok_iff [OF n2, of elmTyp1 0] oob assms(5) by auto
  then obtain p where p: "fieldLoop env elmTyp1 T2 0 = Inl p"
    by (cases "fieldLoop env elmTyp1 T2 0") auto
  then obtain k where k: "k < length (fieldsOf env T2)" "fieldCheck env elmTyp1 T2 k = Inl p"
    using fieldLoop_Inl [OF n2] by blast
  then have "p \<noteq> TargetTooLarge"
    using fieldCheck_not_TargetTooLarge [OF assms(3,4) k(1)] by auto
  moreover have "ConvertTo env T1 T2 t1 h = (Inl p, h)"
    using p checks_is_loop [OF pass] by (simp add: ConvertTo_panics)
  ultimately have first: "\<exists>p. ConvertTo env T1 T2 t1 h = (Inl p, h) \<and> p \<noteq> TargetTooLarge"
    by blast
  have second: "passesBefore env elmTyp1 T2 ?n1 \<longrightarrow>
      ConvertTo env T1 T2 t1 h = (Inl (ReflectPanic ''reflect: Field index out of bounds''), h)"
    using ConvertTo_fails_at [OF pass assms(5) _ oob] by blast
  from first second show ?thesis by blast
qed

theorem larger_target_never_returns_witness:
  "length (fieldsOf Map.empty docNarrow) < length (fieldsOf Map.empty docWide)
   \<and> passesBefore Map.empty docNarrow docWide (length (fieldsOf Map.empty docNarrow))
   \<and> ConvertTo Map.empty (PointerTo docNarrow) docWide (VPtr (Some 1))
        [1 \<mapsto> VStruct [VInt 1, VInt 2]]
      = (Inl (ReflectPanic ''reflect: Field index out of bounds''),
         [1 \<mapsto> VStruct [VInt 1, VInt 2]])"
proof -
  have a: "TypeOf (toAny Map.empty (PointerTo docNarrow) (VPtr (Some 1))) = Some (PointerTo docNarrow)"
    "underlying Map.empty (PointerTo docNarrow) = PointerTo docNarrow"
    "Kind Map.empty docNarrow = Struct" "Kind Map.empty docWide = Struct"
    "length (fieldsOf Map.empty docNarrow) < length (fieldsOf Map.empty docWide)"
    by (simp_all add: vocabulary_defs eval_defs example_defs)
  have n: "length (fieldsOf Map.empty docNarrow) = Suc (Suc 0)"
    by (simp add: vocabulary_defs eval_defs example_defs)
  have b: "passesBefore Map.empty docNarrow docWide (length (fieldsOf Map.empty docNarrow))"
    unfolding n passesBefore_Suc
    by (simp add: passesBefore_0 eval_defs example_defs)
  show ?thesis
    using larger_target_never_returns [OF a, of "[1 \<mapsto> VStruct [VInt 1, VInt 2]]"] a(5) b by simp
qed

text \<open>
  Claim C5: when the target has the same underlying type as the source's pointee, a
  struct (the target is that type under another name, or the type itself), the call
  ends with \<open>RedundantConversion\<close>, whatever else holds of the two types.
\<close>

theorem renamed_pointee_is_redundant:
  assumes "TypeOf (toAny env T1 t1) = Some typ1"
    and "underlying env typ1 = PointerTo elmTyp1"
    and "Kind env elmTyp1 = Struct"
    and "underlying env T2 = underlying env elmTyp1"
  shows "ConvertTo env T1 T2 t1 h = (Inl RedundantConversion, h)"
proof -
  have k2: "Kind env T2 = Struct"
    using assms(3,4) by (simp add: Kind_def)
  have "checks env (Some typ1) (Some T2) = Inl RedundantConversion"
    unfolding checks_def
    by (simp add: Kind_of_Pointer [OF assms(2)] Elem_Pointer [OF assms(2)] assms(3,4) k2
        ConvertibleTo_def)
  then show ?thesis
    using assms(1) by (simp add: ConvertTo_panics TypeOfZero_Struct [OF k2])
qed

theorem renamed_pointee_is_redundant_witness:
  "underlying renamedEnv (Defined ''main.Renamed'') = underlying renamedEnv (Defined ''main.Type1'')
   \<and> ConvertTo renamedEnv (PointerTo (Defined ''main.Type1'')) (Defined ''main.Renamed'')
        (VPtr (Some 2)) mainStore
      = (Inl RedundantConversion, mainStore)"
proof -
  have a: "TypeOf (toAny renamedEnv (PointerTo (Defined ''main.Type1'')) (VPtr (Some 2)))
      = Some (PointerTo (Defined ''main.Type1''))"
    "underlying renamedEnv (PointerTo (Defined ''main.Type1'')) = PointerTo (Defined ''main.Type1'')"
    "Kind renamedEnv (Defined ''main.Type1'') = Struct"
    "underlying renamedEnv (Defined ''main.Renamed'') = underlying renamedEnv (Defined ''main.Type1'')"
    by (simp_all add: vocabulary_defs eval_defs example_defs)
  show ?thesis
    using renamed_pointee_is_redundant [OF a, of mainStore] a(4) by simp
qed

text \<open>
  Claim C10: the call leaves the store as it found it, whether it returns a value or
  panics; in particular the object the source pointer refers to keeps every field.
\<close>

theorem source_store_unchanged: "snd (ConvertTo env T1 T2 t1 h) = h"
  by (simp add: ConvertTo_def split: sum.splits)

text \<open>
  Claim C2 says that the pass at an index first takes one pointer level off each side
  and then compares the kinds, so that a source field of kind pointer-to-K against a
  target field of plain kind K passes the comparison. The source compares first
  (line 90) and strips afterwards (lines 93-98). With \<^verbatim>\<open>Type1\<close> as source and the
  two-field struct of the comment as target, the fields at index 1 are
  \<^verbatim>\<open>*int32\<close> and \<^verbatim>\<open>int32\<close>: both have the allowed kind \<open>Int32\<close> after
  stripping, the loop reaches the index, and the call ends with \<open>FieldKindMismatch\<close>
  there.
\<close>

theorem pointer_against_plain_kind_is_mismatch:
  "strippedKind Map.empty (Type (fieldsOf Map.empty Type1 ! 1)) = Int32
   \<and> strippedKind Map.empty (Type (fieldsOf Map.empty docNarrow ! 1)) = Int32
   \<and> isValidKind Int32
   \<and> passesBefore Map.empty Type1 docNarrow 1
   \<and> ConvertTo Map.empty (PointerTo Type1) docNarrow (VPtr (Some 2)) mainStore
       = (Inl (FieldKindMismatch 1), mainStore)"
  unfolding One_nat_def passesBefore_Suc
  by (simp add: passesBefore_0 vocabulary_defs eval_defs example_defs)

text \<open>
  Claim C2 as amended: at every index below the target's field count that the loop
  reaches and that the source has, the pass compares the kinds of the two fields as
  declared, before any pointer level is taken off, and the call ends with
  \<open>FieldKindMismatch\<close> at that index exactly when these declared kinds differ. In
  particular a source field of kind pointer-to-K against a target field of plain kind K,
  K in the allowed set, ends the call with \<open>FieldKindMismatch\<close> at that index.
\<close>

theorem declared_kinds_compared_before_stripping:
  assumes "passesShapeAndRedundancy env T1 T2 t1 elmTyp1"
    and "i < length (fieldsOf env T2)" and "i < length (fieldsOf env elmTyp1)"
    and "passesBefore env elmTyp1 T2 i"
  shows "(ConvertTo env T1 T2 t1 h = (Inl (FieldKindMismatch i), h) \<longleftrightarrow>
            Kind env (Type (fieldsOf env elmTyp1 ! i)) \<noteq> Kind env (Type (fieldsOf env T2 ! i)))
       \<and> (underlying env (Type (fieldsOf env elmTyp1 ! i)) = PointerTo K
            \<and> Kind env (Type (fieldsOf env T2 ! i)) = Kind env K \<and> isValidKind (Kind env K)
          \<longrightarrow> ConvertTo env T1 T2 t1 h = (Inl (FieldKindMismatch i), h))"
proof -
  let ?k1 = "Kind env (Type (fieldsOf env elmTyp1 ! i))"
  let ?k2 = "Kind env (Type (fieldsOf env T2 ! i))"
  have k: "Kind env elmTyp1 = Struct" "Kind env T2 = Struct"
    using assms(1) by (simp_all add: passesShapeAndRedundancy_def)
  have n2: "NumField env T2 = Inr (length (fieldsOf env T2))"
    by (rule NumField_Struct [OF k(2)])
  have differ: "?k1 \<noteq> ?k2 \<Longrightarrow> ConvertTo env T1 T2 t1 h = (Inl (FieldKindMismatch i), h)"
  proof -
    assume "?k1 \<noteq> ?k2"
    then have "fieldCheck env elmTyp1 T2 i = Inl (FieldKindMismatch i)"
      using assms(3) by (simp add: fieldCheck_eq [OF k assms(2)])
    then show ?thesis by (rule ConvertTo_fails_at [OF assms(1,2,4)])
  qed
  have same: "?k1 = ?k2 \<Longrightarrow> ConvertTo env T1 T2 t1 h \<noteq> (Inl (FieldKindMismatch i), h)"
  proof
    assume eq: "?k1 = ?k2" and r: "ConvertTo env T1 T2 t1 h = (Inl (FieldKindMismatch i), h)"
    from r have "fst (ConvertTo env T1 T2 t1 h) = Inl (FieldKindMismatch i)" by simp
    then have "checks env (TypeOf (toAny env T1 t1)) (TypeOfZero env T2)
        = Inl (FieldKindMismatch i)"
      using ConvertTo_fst_Inl by blast
    then have "fieldLoop env elmTyp1 T2 0 = Inl (FieldKindMismatch i)"
      using checks_is_loop [OF assms(1)] by simp
    then obtain j where j: "j < length (fieldsOf env T2)"
        "fieldCheck env elmTyp1 T2 j = Inl (FieldKindMismatch i)"
      using fieldLoop_Inl [OF n2] by blast
    then have "j = i"
      by (simp add: fieldCheck_eq [OF k j(1)] split: if_splits)
    with j(2) eq assms(3) show False
      by (simp add: fieldCheck_eq [OF k assms(2)] split: if_splits)
  qed
  have ptr: "underlying env (Type (fieldsOf env elmTyp1 ! i)) = PointerTo K
      \<and> ?k2 = Kind env K \<and> isValidKind (Kind env K) \<Longrightarrow> ?k1 \<noteq> ?k2"
    by (auto simp: Kind_of_Pointer isValidKind_iff)
  from differ same ptr show ?thesis by blast
qed

theorem declared_kinds_compared_before_stripping_witness:
  "passesShapeAndRedundancy Map.empty (PointerTo Type1) docNarrow (VPtr (Some 2)) Type1
   \<and> passesBefore Map.empty Type1 docNarrow 1
   \<and> underlying Map.empty (Type (fieldsOf Map.empty Type1 ! 1)) = PointerTo (Predeclared T_int32)
   \<and> Kind Map.empty (Type (fieldsOf Map.empty docNarrow ! 1)) = Kind Map.empty (Predeclared T_int32)
   \<and> isValidKind (Kind Map.empty (Predeclared T_int32))
   \<and> ConvertTo Map.empty (PointerTo Type1) docNarrow (VPtr (Some 2)) mainStore
       = (Inl (FieldKindMismatch 1), mainStore)"
proof -
  have a: "passesShapeAndRedundancy Map.empty (PointerTo Type1) docNarrow (VPtr (Some 2)) Type1"
    "1 < length (fieldsOf Map.empty docNarrow)" "1 < length (fieldsOf Map.empty Type1)"
    by (simp_all add: vocabulary_defs eval_defs example_defs)
  have b: "passesBefore Map.empty Type1 docNarrow 1"
    unfolding One_nat_def passesBefore_Suc
    by (simp add: passesBefore_0 eval_defs example_defs)
  have c: "underlying Map.empty (Type (fieldsOf Map.empty Type1 ! 1)) = PointerTo (Predeclared T_int32)"
    "Kind Map.empty (Type (fieldsOf Map.empty docNarrow ! 1)) = Kind Map.empty (Predeclared T_int32)"
    "isValidKind (Kind Map.empty (Predeclared T_int32))"
    by (simp_all add: vocabulary_defs eval_defs example_defs)
  show ?thesis
    using declared_kinds_compared_before_stripping [OF a b, where K = "Predeclared T_int32" and h = mainStore] a(1) b c by simp
qed

text \<open>
  Claim C4: for a source whose pointee has fields of kinds int8, pointer to int32 and
  string, and a target with fields of kinds int8 and pointer to int32, the call returns
  a value and leaves the store alone; the second field of the returned value is the
  second field of the source object, the same reference.
\<close>

theorem demonstration_pair_converts:
  assumes src: "toAny env T1 t1 = Some (typ1, VPtr (Some a))"
    and u: "underlying env typ1 = PointerTo elmTyp1"
    and ks1: "map (\<lambda>f. Kind env (Type f)) (fieldsOf env elmTyp1) = [Int8, Pointer, String]"
    and ks2: "map (\<lambda>f. Kind env (Type f)) (fieldsOf env T2) = [Int8, Pointer]"
    and p1: "strippedKind env (Type (fieldsOf env elmTyp1 ! 1)) = Int32"
    and p2: "strippedKind env (Type (fieldsOf env T2 ! 1)) = Int32"
    and obj: "h a = Some (VStruct [v1, v2, v3])"
  shows "ConvertTo env T1 T2 t1 h = (Inr (VStruct [v1, v2]), h)
       \<and> fieldValue (VStruct [v1, v2]) 1 = Some v2
       \<and> fieldValue (VStruct [v1, v2, v3]) 1 = Some v2"
proof -
  obtain f0 f1 f2 where fs1: "fieldsOf env elmTyp1 = [f0, f1, f2]"
    using ks1 by (auto simp: map_eq_Cons_conv)
  obtain g0 g1 where fs2: "fieldsOf env T2 = [g0, g1]"
    using ks2 by (auto simp: map_eq_Cons_conv)
  have k: "Kind env elmTyp1 = Struct" "Kind env T2 = Struct"
    using fs1 fs2 by (simp_all add: fieldsOf_nonempty)
  have kinds: "Kind env (Type f0) = Int8" "Kind env (Type f1) = Pointer"
    "Kind env (Type g0) = Int8" "Kind env (Type g1) = Pointer"
    using ks1 ks2 fs1 fs2 by simp_all
  have stripped: "strippedKind env (Type f0) = Int8" "strippedKind env (Type g0) = Int8"
    "strippedKind env (Type f1) = Int32" "strippedKind env (Type g1) = Int32"
    using kinds p1 p2 fs1 fs2 by (simp_all add: strippedKind_plain)
  have ne: "underlying env elmTyp1 \<noteq> underlying env T2"
    using fs1 fs2 by (auto simp: fieldsOf_def)
  have "codeInvariants env (Some typ1) (Some T2)"
    using u k ne fs1 fs2 kinds stripped
    by (simp add: codeInvariants_def ConvertibleTo_def isValidKind_iff)
  then have ok: "checks env (TypeOf (toAny env T1 t1)) (TypeOfZero env T2) = Inr ()"
    using src by (simp add: checks_ok_iff TypeOf_def TypeOfZero_Struct [OF k(2)])
  have "reinterpret env T1 T2 t1 h = Inr (VStruct [v1, v2])"
    using src obj fs2
    by (simp add: reinterpret_def UnsafePointer_def readAs_def NumField_Struct [OF k(2)])
  then have "ConvertTo env T1 T2 t1 h = (Inr (VStruct [v1, v2]), h)"
    using ConvertTo_reads [OF ok] by simp
  then show ?thesis by (simp add: fieldValue_def)
qed

theorem demonstration_pair_converts_witness:
  "ConvertTo mainEnv (PointerTo (Defined ''main.Type1'')) (Defined ''main.Type2'')
      (VPtr (Some 2)) mainStore
     = (Inr (VStruct [VInt 1, VPtr (Some 1)]), mainStore)
   \<and> fieldValue (VStruct [VInt 1, VPtr (Some 1)]) 1 = Some (VPtr (Some 1))
   \<and> fieldValue (VStruct [VInt 1, VPtr (Some 1), VStr ''test'']) 1 = Some (VPtr (Some 1))
   \<and> deref mainStore (VPtr (Some 1)) = Some (VInt 2)"
proof -
  have a: "toAny mainEnv (PointerTo (Defined ''main.Type1'')) (VPtr (Some 2))
      = Some (PointerTo (Defined ''main.Type1''), VPtr (Some 2))"
    "underlying mainEnv (PointerTo (Defined ''main.Type1'')) = PointerTo (Defined ''main.Type1'')"
    "map (\<lambda>f. Kind mainEnv (Type f)) (fieldsOf mainEnv (Defined ''main.Type1''))
      = [Int8, Pointer, String]"
    "map (\<lambda>f. Kind mainEnv (Type f)) (fieldsOf mainEnv (Defined ''main.Type2''))
      = [Int8, Pointer]"
    "strippedKind mainEnv (Type (fieldsOf mainEnv (Defined ''main.Type1'') ! 1)) = Int32"
    "strippedKind mainEnv (Type (fieldsOf mainEnv (Defined ''main.Type2'') ! 1)) = Int32"
    "mainStore 2 = Some (VStruct [VInt 1, VPtr (Some 1), VStr ''test''])"
    by (simp_all add: vocabulary_defs eval_defs example_defs)
  have d: "deref mainStore (VPtr (Some 1)) = Some (VInt 2)"
    by (simp add: deref_def mainStore_def)
  show ?thesis
    using demonstration_pair_converts [where h = mainStore and a = 2, OF a] d by simp
qed






end
